theory Spec2Isabelle
  imports Complex_Main
begin

section \<open>Python values and errors\<close>

text \<open>
  The exceptions \<^verbatim>\<open>mol_env.py\<close> can raise, as values. \<open>ValueError\<close> carries
  its message: the two errors of \<open>Molecule.step\<close> are both \<open>ValueError\<close>s and differ
  in the message only. \<open>TypeError\<close> is what Python raises for an operator applied to
  operands that do not support it, \<open>KeyError\<close> a missing dictionary key,
  \<open>IndexError\<close> a list index out of range and \<open>AttributeError\<close> a method called
  on \<open>None\<close>.
\<close>

datatype error =
    ValueError string
  | TypeError string
  | KeyError int
  | IndexError string
  | AttributeError string

text \<open>\<open>xs[i]\<close> on a Python list: negative indices count from the end.\<close>

definition py_index :: "'a list \<Rightarrow> int \<Rightarrow> error + 'a" where
  "py_index xs i =
     (if 0 \<le> i \<and> i < int (length xs) then Inr (xs ! nat i)
      else if i < 0 \<and> - int (length xs) \<le> i then Inr (xs ! nat (int (length xs) + i))
      else Inl (IndexError ''list index out of range''))"

text \<open>\<open>s.split(c)\<close> for a one-character separator: never the empty list.\<close>

fun split :: "string \<Rightarrow> char \<Rightarrow> string list" where
  "split [] c = [[]]"
| "split (x # xs) c =
     (if x = c then [] # split xs c
      else (case split xs c of
              [] \<Rightarrow> [[x]]
            | p # ps \<Rightarrow> (x # p) # ps))"

text \<open>\<open>sorted(parts, key=len)\<close>: a stable sort on the key, as \<open>sort_key\<close> is.\<close>

definition sorted_by_len :: "string list \<Rightarrow> string list" where
  "sorted_by_len parts = sort_key length parts"

text \<open>
  A loop that adds to a set and may raise: the results of the iterations are united in
  order, and the first iteration that raises ends the loop with its error.
\<close>

fun collect :: "('a \<Rightarrow> error + 'b set) \<Rightarrow> 'a list \<Rightarrow> error + 'b set" where
  "collect f [] = Inr {}"
| "collect f (x # xs) =
     (case f x of
        Inl e \<Rightarrow> Inl e
      | Inr A \<Rightarrow> (case collect f xs of Inl e \<Rightarrow> Inl e | Inr B \<Rightarrow> Inr (A \<union> B)))"

text \<open>\<open>itertools.combinations(atoms, 2)\<close>: the pairs in the order Python yields them.\<close>

fun combinations2 :: "'a list \<Rightarrow> ('a \<times> 'a) list" where
  "combinations2 [] = []"
| "combinations2 (x # xs) = map (\<lambda>y. (x, y)) xs @ combinations2 xs"

section \<open>The chemistry backend\<close>

text \<open>
  \<^verbatim>\<open>rdkit.Chem\<close> and \<^verbatim>\<open>mol_utility\<close> are imported, not part of the file: they
  are a parameter of the model, a record of the operations the file calls, over any type
  \<open>'m\<close> of molecules. The names are the backend's. \<open>SanitizeMol\<close> is called with
  \<^verbatim>\<open>catchErrors=True\<close> only: it returns a status (zero on success) and has changed
  the molecule in place; here \<open>None\<close> is a non-zero status and \<open>Some m\<close> the sanitized
  molecule. \<open>Chem.Mol(state)\<close> and \<open>Chem.RWMol(state)\<close> copy a molecule and are the
  identity on values. \<open>GetAtoms\<close> lists the atoms by index. \<open>atom_valences\<close> is
  \<^verbatim>\<open>molecules.atom_valences\<close>: the largest valence of each label of a list. The
  operations are total: the backend is taken to return on every argument the file hands
  it (the labels of \<open>atom_types\<close> are elements it knows, a state that parsed can be
  kekulized).
\<close>

datatype BondType = UNSPECIFIED | SINGLE | DOUBLE | TRIPLE | QUADRUPLE | AROMATIC | DATIVE

record Bond =
  GetIdx :: nat
  GetBeginAtomIdx :: nat
  GetEndAtomIdx :: nat
  GetBondType :: BondType

record 'm Chem =
  MolFromSmiles :: "string \<Rightarrow> 'm option"
  MolToSmiles :: "'m \<Rightarrow> string"
  SanitizeMol :: "'m \<Rightarrow> 'm option"
  Kekulize :: "'m \<Rightarrow> 'm"
  GetAtoms :: "'m \<Rightarrow> nat list"
  GetNumImplicitHs :: "'m \<Rightarrow> nat \<Rightarrow> int"
  IsInRing :: "'m \<Rightarrow> nat \<Rightarrow> bool"
  GetBonds :: "'m \<Rightarrow> Bond list"
  GetShortestPath :: "'m \<Rightarrow> nat \<Rightarrow> nat \<Rightarrow> nat list"
  AddAtom :: "'m \<Rightarrow> string \<Rightarrow> 'm \<times> nat"
  AddBond :: "'m \<Rightarrow> nat \<Rightarrow> nat \<Rightarrow> BondType \<Rightarrow> 'm"
  ReplaceBond :: "'m \<Rightarrow> nat \<Rightarrow> Bond \<Rightarrow> 'm"
  RemoveBond :: "'m \<Rightarrow> nat \<Rightarrow> nat \<Rightarrow> 'm"
  atom_valences :: "string list \<Rightarrow> int list"

text \<open>
  \<open>mol.GetBondBetweenAtoms(a, b)\<close>: the bond of the molecule that joins the two atoms,
  in either direction, or \<open>None\<close>.
\<close>

definition GetBondBetweenAtoms :: "'m Chem \<Rightarrow> 'm \<Rightarrow> nat \<Rightarrow> nat \<Rightarrow> Bond option" where
  "GetBondBetweenAtoms chem mol a b =
     find (\<lambda>bd. (GetBeginAtomIdx bd = a \<and> GetEndAtomIdx bd = b) \<or>
                (GetBeginAtomIdx bd = b \<and> GetEndAtomIdx bd = a))
          (GetBonds chem mol)"

section \<open>The enumerator\<close>

text \<open>
  The list \<^verbatim>\<open>bond_orders = [None, SINGLE, DOUBLE, TRIPLE]\<close> of \<open>_bond_addition\<close> and
  \<open>_bond_removal\<close>, and \<open>bond_orders.index(t)\<close> on it (\<open>None\<close> when \<open>t\<close> is
  \<^verbatim>\<open>not in bond_orders\<close>).
\<close>

definition bond_orders :: "BondType option list" where
  "bond_orders = [None, Some SINGLE, Some DOUBLE, Some TRIPLE]"

fun bond_orders_index :: "BondType \<Rightarrow> int option" where
  "bond_orders_index SINGLE = Some 1"
| "bond_orders_index DOUBLE = Some 2"
| "bond_orders_index TRIPLE = Some 3"
| "bond_orders_index _ = None"

text \<open>
  \<open>bond_orders[k]\<close> handed to \<open>SetBondType\<close> or \<open>AddBond\<close>: an index out of range
  raises \<open>IndexError\<close>, and the entry \<open>None\<close> is refused by the backend's argument
  check, a \<open>TypeError\<close>.
\<close>

definition bond_order_at :: "int \<Rightarrow> error + BondType" where
  "bond_order_at k =
     (case py_index bond_orders k of
        Inl e \<Rightarrow> Inl e
      | Inr None \<Rightarrow> Inl (TypeError ''Python argument types did not match C++ signature'')
      | Inr (Some t) \<Rightarrow> Inr t)"

text \<open>
  The end of every candidate: sanitize, skip it on a non-zero status, else add its
  canonical serialization.
\<close>

definition sanitized_smiles :: "'m Chem \<Rightarrow> 'm \<Rightarrow> string set" where
  "sanitized_smiles chem new_state =
     (case SanitizeMol chem new_state of
        None \<Rightarrow> {}
      | Some m \<Rightarrow> {MolToSmiles chem m})"

text \<open>
  \<open>_atom_addition\<close>. The dictionary \<open>bond_orders\<close> of this function has the keys 1,
  2 and 3; \<open>atoms_with_free_valence[i]\<close> raises \<open>KeyError\<close> when the caller's
  dictionary has no key \<open>i\<close>. Dictionaries are association lists in insertion order.
\<close>

definition atom_addition_candidate ::
  "'m Chem \<Rightarrow> 'm \<Rightarrow> (string \<times> int) list \<Rightarrow> int \<Rightarrow> BondType \<Rightarrow> nat \<Rightarrow> string \<Rightarrow> string set" where
  "atom_addition_candidate chem st valences i bt atom element =
     (case map_of valences element of
        None \<Rightarrow> {}
      | Some v \<Rightarrow>
          if v \<ge> i then
            (let (new_state, idx) = AddAtom chem st element
             in sanitized_smiles chem (AddBond chem new_state atom idx bt))
          else {})"

definition atom_addition ::
  "'m Chem \<Rightarrow> 'm \<Rightarrow> string list \<Rightarrow> (string \<times> int) list \<Rightarrow> (int \<times> nat list) list
     \<Rightarrow> error + string set" where
  "atom_addition chem st ats valences atoms_with_free_valence =
     collect
       (\<lambda>(i, bt).
          case map_of atoms_with_free_valence i of
            None \<Rightarrow> Inl (KeyError i)
          | Some atoms \<Rightarrow>
              Inr (\<Union>atom \<in> set atoms. \<Union>element \<in> set ats.
                     atom_addition_candidate chem st valences i bt atom element))
       [(1, SINGLE), (2, DOUBLE), (3, TRIPLE)]"

text \<open>
  \<open>_bond_addition\<close>: one pair of atoms at one valence level. The bond is read from the
  state as it is (an aromatic bond is skipped), the new state is the kekulized copy.
\<close>

definition bond_addition_pair ::
  "'m Chem \<Rightarrow> 'm \<Rightarrow> nat set option \<Rightarrow> bool \<Rightarrow> int \<Rightarrow> nat \<times> nat \<Rightarrow> error + string set" where
  "bond_addition_pair chem st allowed_ring_sizes allow_bonds_between_rings valence pr =
     (let atom1 = fst pr; atom2 = snd pr;
          new_state = Kekulize chem st
      in case GetBondBetweenAtoms chem st atom1 atom2 of
           Some bond \<Rightarrow>
             (case bond_orders_index (GetBondType bond) of
                None \<Rightarrow> Inr {}
              | Some k \<Rightarrow>
                  let bond_order = k + valence
                  in if bond_order < int (length bond_orders) then
                       (case bond_order_at bond_order of
                          Inl e \<Rightarrow> Inl e
                        | Inr t \<Rightarrow>
                            Inr (sanitized_smiles chem
                                   (ReplaceBond chem new_state (GetIdx bond)
                                      (bond\<lparr>GetBondType := t\<rparr>))))
                     else Inr {})
         | None \<Rightarrow>
             if \<not> allow_bonds_between_rings \<and>
                (IsInRing chem st atom1 \<and> IsInRing chem st atom2) then Inr {}
             else if (case allowed_ring_sizes of
                        None \<Rightarrow> False
                      | Some sizes \<Rightarrow>
                          length (GetShortestPath chem st atom1 atom2) \<notin> sizes) then Inr {}
             else (case bond_order_at valence of
                     Inl e \<Rightarrow> Inl e
                   | Inr t \<Rightarrow>
                       Inr (sanitized_smiles chem (AddBond chem new_state atom1 atom2 t))))"

definition bond_addition ::
  "'m Chem \<Rightarrow> 'm \<Rightarrow> (int \<times> nat list) list \<Rightarrow> nat set option \<Rightarrow> bool \<Rightarrow> error + string set" where
  "bond_addition chem st atoms_with_free_valence allowed_ring_sizes allow_bonds_between_rings =
     collect
       (\<lambda>(valence, atoms).
          collect
            (bond_addition_pair chem st allowed_ring_sizes allow_bonds_between_rings valence)
            (combinations2 atoms))
       atoms_with_free_valence"

text \<open>
  \<open>_bond_removal\<close>: one bond at one decrement. The bond is looked up again in a copy
  of the state; a lookup that found nothing would raise \<open>AttributeError\<close> at
  \<open>bond.GetBondType()\<close>.
\<close>

definition removal_fragments :: "string \<Rightarrow> string set" where
  "removal_fragments smiles =
     (let parts = sorted_by_len (split smiles CHR ''.'')
      in if length parts = 1 \<or> length (parts ! 0) = 1 then {last parts} else {})"

definition bond_removal_bond :: "'m Chem \<Rightarrow> 'm \<Rightarrow> int \<Rightarrow> Bond \<Rightarrow> error + string set" where
  "bond_removal_bond chem st valence bond0 =
     (case GetBondBetweenAtoms chem st (GetBeginAtomIdx bond0) (GetEndAtomIdx bond0) of
        None \<Rightarrow> Inl (AttributeError ''NoneType object has no attribute GetBondType'')
      | Some bond \<Rightarrow>
          (case bond_orders_index (GetBondType bond) of
             None \<Rightarrow> Inr {}
           | Some k \<Rightarrow>
               let new_state = Kekulize chem st;
                   bond_order = k - valence
               in if bond_order > 0 then
                    (case bond_order_at bond_order of
                       Inl e \<Rightarrow> Inl e
                     | Inr t \<Rightarrow>
                         Inr (sanitized_smiles chem
                                (ReplaceBond chem new_state (GetIdx bond)
                                   (bond\<lparr>GetBondType := t\<rparr>))))
                  else if bond_order = 0 then
                    (case SanitizeMol chem
                            (RemoveBond chem new_state
                               (GetBeginAtomIdx bond) (GetEndAtomIdx bond)) of
                       None \<Rightarrow> Inr {}
                     | Some m \<Rightarrow> Inr (removal_fragments (MolToSmiles chem m)))
                  else Inr {}))"

definition bond_removal :: "'m Chem \<Rightarrow> 'm \<Rightarrow> error + string set" where
  "bond_removal chem st =
     collect
       (\<lambda>valence. collect (bond_removal_bond chem st valence) (GetBonds chem st))
       [1, 2, 3]"

text \<open>
  \<open>get_valid_actions\<close>. A state is \<open>None\<close> or a string; \<^verbatim>\<open>not state\<close> holds of
  \<open>None\<close> and of the empty string. When parsing fails the source evaluates
  \<^verbatim>\<open>'Received invalid state: %s' & state\<close> to build the message of the
  \<open>ValueError\<close>: \<^verbatim>\<open>&\<close> on two strings raises \<open>TypeError\<close>, so no
  \<open>ValueError\<close> is ever constructed. \<open>max\<close> of no values raises \<open>ValueError\<close>.
\<close>

definition py_max :: "int list \<Rightarrow> error + int" where
  "py_max xs =
     (case xs of
        [] \<Rightarrow> Inl (ValueError ''max() arg is an empty sequence'')
      | x # ys \<Rightarrow> Inr (fold max ys x))"

definition free_valence_map :: "'m Chem \<Rightarrow> 'm \<Rightarrow> int \<Rightarrow> (int \<times> nat list) list" where
  "free_valence_map chem mol m =
     map (\<lambda>i. (i, filter (\<lambda>a. GetNumImplicitHs chem mol a \<ge> i) (GetAtoms chem mol)))
         [1 .. m - 1]"

definition enumerate_edits ::
  "'m Chem \<Rightarrow> 'm \<Rightarrow> string list \<Rightarrow> bool \<Rightarrow> bool \<Rightarrow> nat set option \<Rightarrow> bool
     \<Rightarrow> (string \<times> int) list \<Rightarrow> (int \<times> nat list) list \<Rightarrow> error + string set" where
  "enumerate_edits chem mol ats allow_removal allow_no_modification
       allowed_ring_sizes allow_bonds_between_rings valences atoms_with_free_valence =
     (case atom_addition chem mol ats valences atoms_with_free_valence of
        Inl e \<Rightarrow> Inl e
      | Inr A \<Rightarrow>
          (case bond_addition chem mol atoms_with_free_valence
                  allowed_ring_sizes allow_bonds_between_rings of
             Inl e \<Rightarrow> Inl e
           | Inr B \<Rightarrow>
               (case (if allow_removal then bond_removal chem mol else Inr {}) of
                  Inl e \<Rightarrow> Inl e
                | Inr R \<Rightarrow>
                    Inr (A \<union> B \<union> R \<union>
                         (if allow_no_modification then {MolToSmiles chem mol} else {})))))"

definition get_valid_actions ::
  "'m Chem \<Rightarrow> string option \<Rightarrow> string list \<Rightarrow> bool \<Rightarrow> bool \<Rightarrow> nat set option \<Rightarrow> bool
     \<Rightarrow> error + string set" where
  "get_valid_actions chem st ats allow_removal allow_no_modification
       allowed_ring_sizes allow_bonds_between_rings =
     (if st = None \<or> st = Some [] then Inr (set ats)
      else
        (case MolFromSmiles chem (the st) of
           None \<Rightarrow> Inl (TypeError ''unsupported operand type(s) for &: str and str'')
         | Some mol \<Rightarrow>
             (let valences = map (\<lambda>t. (t, hd (atom_valences chem [t]))) ats
              in (case py_max (map snd valences) of
                    Inl e \<Rightarrow> Inl e
                  | Inr m \<Rightarrow>
                      enumerate_edits chem mol ats allow_removal allow_no_modification
                        allowed_ring_sizes allow_bonds_between_rings valences
                        (free_valence_map chem mol m)))))"

section \<open>The environment\<close>

text \<open>
  \<open>Result\<close> is the named tuple \<open>step\<close> returns. \<open>Molecule\<close> holds the attributes of
  the class; an attribute \<open>self._x\<close> is the field \<open>priv_x\<close>. A state handed in as a
  \<open>Chem.Mol\<close> object is serialized first, so the stored states are strings, or \<open>None\<close>.
  The target function is any total predicate on states.
\<close>

record Result =
  state :: "string option"
  reward :: real
  terminated :: bool

record Molecule =
  init_mol :: "string option"
  atom_types :: "string list"
  allow_removal :: bool
  allow_no_modification :: bool
  allow_bonds_between_rings :: bool
  allowed_ring_sizes :: "nat set option"
  max_steps :: int
  priv_state :: "string option"
  priv_valid_actions :: "string set"
  priv_counter :: int
  priv_target_fn :: "(string option \<Rightarrow> bool) option"
  record_path :: bool
  priv_path :: "string option list"
  priv_max_bonds :: int
  priv_max_new_bonds :: "(string \<times> int) list"

datatype 'm state_arg = Smiles string | MolObj 'm

definition as_smiles :: "'m Chem \<Rightarrow> 'm state_arg \<Rightarrow> string" where
  "as_smiles chem a = (case a of Smiles s \<Rightarrow> s | MolObj m \<Rightarrow> MolToSmiles chem m)"

text \<open>\<open>Molecule.__init__\<close>, with the defaults of the source written by the caller.\<close>

definition Molecule_init ::
  "'m Chem \<Rightarrow> string list \<Rightarrow> 'm state_arg option \<Rightarrow> bool \<Rightarrow> bool \<Rightarrow> bool \<Rightarrow> nat set option
     \<Rightarrow> int \<Rightarrow> (string option \<Rightarrow> bool) option \<Rightarrow> bool \<Rightarrow> Molecule" where
  "Molecule_init chem ats im ar anm abr sizes ms tf rp =
     \<lparr> init_mol = map_option (as_smiles chem) im,
       atom_types = ats,
       allow_removal = ar,
       allow_no_modification = anm,
       allow_bonds_between_rings = abr,
       allowed_ring_sizes = sizes,
       max_steps = ms,
       priv_state = None,
       priv_valid_actions = {},
       priv_counter = ms,
       priv_target_fn = tf,
       record_path = rp,
       priv_path = [],
       priv_max_bonds = 4,
       priv_max_new_bonds = zip ats (atom_valences chem ats) \<rparr>"

definition Molecule_state :: "Molecule \<Rightarrow> string option" where
  "Molecule_state self = priv_state self"

definition num_steps_taken :: "Molecule \<Rightarrow> int" where
  "num_steps_taken self = priv_counter self"

definition get_path :: "Molecule \<Rightarrow> string option list" where
  "get_path self = priv_path self"

text \<open>
  \<open>Molecule.get_valid_actions(state=None, force_rebuild=False)\<close>: the value returned
  (or the error raised) and the environment after the call. The cache is assigned only
  when the enumeration returns.
\<close>

definition rebuild_valid_actions ::
  "'m Chem \<Rightarrow> Molecule \<Rightarrow> string option \<Rightarrow> (error + string set) \<times> Molecule" where
  "rebuild_valid_actions chem self st =
     (case get_valid_actions chem st (atom_types self) (allow_removal self)
             (allow_no_modification self) (allowed_ring_sizes self)
             (allow_bonds_between_rings self) of
        Inl e \<Rightarrow> (Inl e, self)
      | Inr acts \<Rightarrow> (Inr acts, self\<lparr>priv_valid_actions := acts\<rparr>))"

definition Molecule_get_valid_actions ::
  "'m Chem \<Rightarrow> Molecule \<Rightarrow> 'm state_arg option \<Rightarrow> bool \<Rightarrow> (error + string set) \<times> Molecule" where
  "Molecule_get_valid_actions chem self st force_rebuild =
     (case st of
        None \<Rightarrow>
          if priv_valid_actions self \<noteq> {} \<and> \<not> force_rebuild
          then (Inr (priv_valid_actions self), self)
          else rebuild_valid_actions chem self (priv_state self)
      | Some a \<Rightarrow> rebuild_valid_actions chem self (Some (as_smiles chem a)))"

definition initialize :: "'m Chem \<Rightarrow> Molecule \<Rightarrow> (error + unit) \<times> Molecule" where
  "initialize chem self =
     (let self1 = self\<lparr>priv_state := init_mol self\<rparr>;
          self2 = (if record_path self1 then self1\<lparr>priv_path := [priv_state self1]\<rparr>
                   else self1)
      in case Molecule_get_valid_actions chem self2 None True of
           (Inl e, self3) \<Rightarrow> (Inl e, self3)
         | (Inr acts, self3) \<Rightarrow>
             (Inr (), self3\<lparr>priv_valid_actions := acts, priv_counter := 0\<rparr>))"

definition reward_hook :: "Molecule \<Rightarrow> real" where
  "reward_hook self = 0.0"

definition goal_reached :: "Molecule \<Rightarrow> bool" where
  "goal_reached self =
     (case priv_target_fn self of
        None \<Rightarrow> False
      | Some f \<Rightarrow> f (priv_state self))"

definition episode_over :: "Molecule \<Rightarrow> bool" where
  "episode_over self = (priv_counter self \<ge> max_steps self \<or> goal_reached self)"

text \<open>
  \<open>Molecule.step\<close>: the result or the error, and the environment after the call. The
  new state is assigned, and appended to the path, before the action space is rebuilt:
  an error of the enumeration leaves both changed and the counter as it was.
\<close>

definition step :: "'m Chem \<Rightarrow> Molecule \<Rightarrow> string \<Rightarrow> (error + Result) \<times> Molecule" where
  "step chem self action =
     (if episode_over self then (Inl (ValueError ''This episode is terminated.''), self)
      else if action \<notin> priv_valid_actions self then (Inl (ValueError ''Invalid action.''), self)
      else
        (let self1 = self\<lparr>priv_state := Some action\<rparr>;
             self2 = (if record_path self1
                      then self1\<lparr>priv_path := priv_path self1 @ [priv_state self1]\<rparr>
                      else self1)
         in case Molecule_get_valid_actions chem self2 None True of
              (Inl e, self3) \<Rightarrow> (Inl e, self3)
            | (Inr acts, self3) \<Rightarrow>
                (let self4 = self3\<lparr>priv_valid_actions := acts\<rparr>;
                     self5 = self4\<lparr>priv_counter := priv_counter self4 + 1\<rparr>
                 in (Inr \<lparr> state = priv_state self5,
                            reward = reward_hook self5,
                            terminated = episode_over self5 \<rparr>,
                     self5))))"

text \<open>A run of \<open>step\<close> calls that all return: the environment after the last one.\<close>

fun steps :: "'m Chem \<Rightarrow> Molecule \<Rightarrow> string list \<Rightarrow> Molecule option" where
  "steps chem self [] = Some self"
| "steps chem self (a # as) =
     (case step chem self a of
        (Inl e, self') \<Rightarrow> None
      | (Inr r, self') \<Rightarrow> steps chem self' as)"

section \<open>A small backend for concrete runs\<close>

text \<open>
  To run the enumerator and the environment on concrete inputs the backend parameter
  needs a value. \<open>chain_chem\<close> is a backend for unbranched, acyclic molecules over
  the elements C, N, O, S and Cl: a molecule is the list of its atoms' labels and the list
  of its bonds; a serialization is a sequence of chains separated by dots, a chain a
  sequence of atoms with \<open>=\<close> or \<open>#\<close> between two of them for a double or triple
  bond. Sanitization accepts a molecule when no atom exceeds its largest valence and every
  fragment is a chain. The largest valences are 4, 3, 2, 6 and 1; sulfur has the valences
  2, 4 and 6, and the implicit hydrogens fill an atom up to the smallest valence that
  holds its bonds. No atom is in a ring here, and no bond is aromatic.
\<close>

record chain_mol =
  chain_atoms :: "string list"
  chain_bonds :: "Bond list"

definition valence_list :: "string \<Rightarrow> int list" where
  "valence_list t =
     (if t = ''C'' then [4] else if t = ''N'' then [3] else if t = ''O'' then [2]
      else if t = ''S'' then [2, 4, 6] else if t = ''Cl'' then [1] else [])"

definition chain_atom_valences :: "string list \<Rightarrow> int list" where
  "chain_atom_valences ts = map (\<lambda>t. fold max (valence_list t) 0) ts"

fun order_of :: "BondType \<Rightarrow> int" where
  "order_of SINGLE = 1"
| "order_of DOUBLE = 2"
| "order_of TRIPLE = 3"
| "order_of QUADRUPLE = 4"
| "order_of _ = 0"

definition touches :: "nat \<Rightarrow> Bond \<Rightarrow> bool" where
  "touches a bd = (GetBeginAtomIdx bd = a \<or> GetEndAtomIdx bd = a)"

definition other_end :: "nat \<Rightarrow> Bond \<Rightarrow> nat" where
  "other_end a bd = (if GetBeginAtomIdx bd = a then GetEndAtomIdx bd else GetBeginAtomIdx bd)"

definition explicit_valence :: "chain_mol \<Rightarrow> nat \<Rightarrow> int" where
  "explicit_valence m a =
     sum_list (map (\<lambda>bd. order_of (GetBondType bd)) (filter (touches a) (chain_bonds m)))"

definition chain_implicit_hs :: "chain_mol \<Rightarrow> nat \<Rightarrow> int" where
  "chain_implicit_hs m a =
     (if a < length (chain_atoms m) then
        (case filter (\<lambda>v. explicit_valence m a \<le> v) (valence_list (chain_atoms m ! a)) of
           [] \<Rightarrow> 0
         | v # vs \<Rightarrow> v - explicit_valence m a)
      else 0)"

definition chain_add_atom :: "chain_mol \<Rightarrow> string \<Rightarrow> chain_mol \<times> nat" where
  "chain_add_atom m t = (m\<lparr>chain_atoms := chain_atoms m @ [t]\<rparr>, length (chain_atoms m))"

definition chain_add_bond :: "chain_mol \<Rightarrow> nat \<Rightarrow> nat \<Rightarrow> BondType \<Rightarrow> chain_mol" where
  "chain_add_bond m a b t =
     m\<lparr>chain_bonds := chain_bonds m @
          [\<lparr>GetIdx = length (chain_bonds m), GetBeginAtomIdx = a, GetEndAtomIdx = b,
            GetBondType = t\<rparr>]\<rparr>"

definition chain_replace_bond :: "chain_mol \<Rightarrow> nat \<Rightarrow> Bond \<Rightarrow> chain_mol" where
  "chain_replace_bond m i bd = m\<lparr>chain_bonds := (chain_bonds m)[i := bd\<lparr>GetIdx := i\<rparr>]\<rparr>"

fun renumber :: "nat \<Rightarrow> Bond list \<Rightarrow> Bond list" where
  "renumber i [] = []"
| "renumber i (bd # bds) = bd\<lparr>GetIdx := i\<rparr> # renumber (Suc i) bds"

definition chain_remove_bond :: "chain_mol \<Rightarrow> nat \<Rightarrow> nat \<Rightarrow> chain_mol" where
  "chain_remove_bond m a b =
     m\<lparr>chain_bonds :=
          renumber 0 (filter (\<lambda>bd. \<not> (touches a bd \<and> other_end a bd = b)) (chain_bonds m))\<rparr>"

text \<open>
  Walking a chain from one atom, away from the atom it was reached from: the atoms with
  the bond that leaves each of them. The fuel is the number of atoms.
\<close>

fun walk :: "chain_mol \<Rightarrow> nat \<Rightarrow> nat option \<Rightarrow> nat \<Rightarrow> (nat \<times> BondType option) list" where
  "walk m 0 prev cur = [(cur, None)]"
| "walk m (Suc fuel) prev cur =
     (case filter (\<lambda>bd. Some (other_end cur bd) \<noteq> prev) (filter (touches cur) (chain_bonds m)) of
        [] \<Rightarrow> [(cur, None)]
      | bd # bds \<Rightarrow> (cur, Some (GetBondType bd)) # walk m fuel (Some cur) (other_end cur bd))"

definition degree :: "chain_mol \<Rightarrow> nat \<Rightarrow> nat" where
  "degree m a = length (filter (touches a) (chain_bonds m))"

definition chains :: "chain_mol \<Rightarrow> (nat \<times> BondType option) list list" where
  "chains m =
     (let n = length (chain_atoms m)
      in filter (\<lambda>p. fst (hd p) \<le> fst (last p))
           (map (walk m n None) (filter (\<lambda>a. degree m a \<le> 1) [0 ..< n])))"

definition well_formed :: "chain_mol \<Rightarrow> bool" where
  "well_formed m =
     (let n = length (chain_atoms m)
      in list_all (\<lambda>bd. GetBeginAtomIdx bd < n \<and> GetEndAtomIdx bd < n \<and>
                         GetBeginAtomIdx bd \<noteq> GetEndAtomIdx bd \<and>
                         order_of (GetBondType bd) > 0) (chain_bonds m) \<and>
         list_all (\<lambda>a. degree m a \<le> 2 \<and> valence_list (chain_atoms m ! a) \<noteq> [] \<and>
                        explicit_valence m a \<le> fold max (valence_list (chain_atoms m ! a)) 0)
                  [0 ..< n] \<and>
         distinct (concat (map (map fst) (chains m))) \<and>
         length (concat (chains m)) = n)"

definition chain_sanitize :: "chain_mol \<Rightarrow> chain_mol option" where
  "chain_sanitize m = (if well_formed m then Some m else None)"

fun bond_symbol :: "BondType option \<Rightarrow> string" where
  "bond_symbol (Some DOUBLE) = ''=''"
| "bond_symbol (Some TRIPLE) = ''#''"
| "bond_symbol _ = []"

fun str_le :: "string \<Rightarrow> string \<Rightarrow> bool" where
  "str_le [] ys = True"
| "str_le (x # xs) [] = False"
| "str_le (x # xs) (y # ys) =
     ((of_char x :: nat) < of_char y \<or> (x = y \<and> str_le xs ys))"

definition chain_string :: "chain_mol \<Rightarrow> (nat \<times> BondType option) list \<Rightarrow> string" where
  "chain_string m p =
     (let toks = concat (map (\<lambda>(a, b). [chain_atoms m ! a, bond_symbol b]) p);
          forward = concat toks; backward = concat (rev toks)
      in if str_le forward backward then forward else backward)"

fun join_dots :: "string list \<Rightarrow> string" where
  "join_dots [] = []"
| "join_dots [p] = p"
| "join_dots (p # q # ps) = p @ ''.'' @ join_dots (q # ps)"

definition chain_to_smiles :: "chain_mol \<Rightarrow> string" where
  "chain_to_smiles m = join_dots (map (chain_string m) (chains m))"

fun tokens :: "string \<Rightarrow> string list" where
  "tokens [] = []"
| "tokens [c] = [[c]]"
| "tokens (c # d # ds) =
     (if c = CHR ''C'' \<and> d = CHR ''l'' then ''Cl'' # tokens ds else [c] # tokens (d # ds))"

fun parse_chain :: "BondType \<Rightarrow> string list \<Rightarrow> (BondType \<times> string) list option" where
  "parse_chain bt [] = None"
| "parse_chain bt [t] = (if valence_list t = [] then None else Some [(bt, t)])"
| "parse_chain bt (t # u # us) =
     (if valence_list t = [] then None
      else if u = ''='' then map_option ((#) (bt, t)) (parse_chain DOUBLE us)
      else if u = ''#'' then map_option ((#) (bt, t)) (parse_chain TRIPLE us)
      else map_option ((#) (bt, t)) (parse_chain SINGLE (u # us)))"

fun extend_chain :: "chain_mol \<Rightarrow> (BondType \<times> string) list \<Rightarrow> chain_mol" where
  "extend_chain m [] = m"
| "extend_chain m ((bt, t) # rest) =
     (let (m1, idx) = chain_add_atom m t
      in extend_chain (chain_add_bond m1 (idx - 1) idx bt) rest)"

fun add_chain :: "chain_mol \<Rightarrow> (BondType \<times> string) list \<Rightarrow> chain_mol" where
  "add_chain m [] = m"
| "add_chain m ((bt, t) # rest) = extend_chain (fst (chain_add_atom m t)) rest"

definition chain_from_smiles :: "string \<Rightarrow> chain_mol option" where
  "chain_from_smiles s =
     (case those (map (\<lambda>f. parse_chain SINGLE (tokens f)) (split s CHR ''.'')) of
        None \<Rightarrow> None
      | Some frags \<Rightarrow>
          chain_sanitize (fold (\<lambda>f m. add_chain m f) frags
                            \<lparr>chain_atoms = [], chain_bonds = []\<rparr>))"

definition chain_shortest_path :: "chain_mol \<Rightarrow> nat \<Rightarrow> nat \<Rightarrow> nat list" where
  "chain_shortest_path m a b =
     (case filter (\<lambda>p. a \<in> set p \<and> b \<in> set p) (map (map fst) (chains m)) of
        [] \<Rightarrow> []
      | p # ps \<Rightarrow>
          (let q = dropWhile (\<lambda>x. x \<noteq> a \<and> x \<noteq> b) p;
               r = rev (dropWhile (\<lambda>x. x \<noteq> a \<and> x \<noteq> b) (rev q))
           in if hd r = a then r else rev r))"

definition chain_chem :: "chain_mol Chem" where
  "chain_chem =
     \<lparr> MolFromSmiles = chain_from_smiles,
       MolToSmiles = chain_to_smiles,
       SanitizeMol = chain_sanitize,
       Kekulize = (\<lambda>m. m),
       GetAtoms = (\<lambda>m. [0 ..< length (chain_atoms m)]),
       GetNumImplicitHs = chain_implicit_hs,
       IsInRing = (\<lambda>m a. False),
       GetBonds = chain_bonds,
       GetShortestPath = chain_shortest_path,
       AddAtom = chain_add_atom,
       AddBond = chain_add_bond,
       ReplaceBond = chain_replace_bond,
       RemoveBond = chain_remove_bond,
       atom_valences = chain_atom_valences \<rparr>"

section \<open>Calls on an environment, and concrete environments\<close>

text \<open>
  The calls that change an environment, other than \<open>initialize\<close>, and the environment
  after a sequence of them, whether they return or raise.
\<close>

datatype 'm call = StepCall string | GetValidActionsCall "'m state_arg option" bool

fun after_call :: "'m Chem \<Rightarrow> Molecule \<Rightarrow> 'm call \<Rightarrow> Molecule" where
  "after_call chem self (StepCall a) = snd (step chem self a)"
| "after_call chem self (GetValidActionsCall st f) =
     snd (Molecule_get_valid_actions chem self st f)"

definition after_calls :: "'m Chem \<Rightarrow> Molecule \<Rightarrow> 'm call list \<Rightarrow> Molecule" where
  "after_calls chem self cs = foldl (after_call chem) self cs"

text \<open>
  The invariant of a recording environment after \<open>k\<close> steps of an episode that began
  at \<open>self0\<close>.
\<close>

definition path_recorded :: "Molecule \<Rightarrow> Molecule \<Rightarrow> nat \<Rightarrow> bool" where
  "path_recorded self0 self k =
     (length (get_path self) = k + 1 \<and> hd (get_path self) = init_mol self0 \<and>
      last (get_path self) = Molecule_state self \<and> record_path self \<and>
      num_steps_taken self = int k)"

text \<open>
  Concrete environments over \<open>chain_chem\<close>: \<open>fresh_env\<close> is
  \<^verbatim>\<open>Molecule(atom_types=['C', 'O'], max_steps=3, record_path=True)\<close> as constructed,
  \<open>started_env\<close> the same after \<open>initialize()\<close>, \<open>finished_env\<close> after the three
  steps \<open>C\<close>, \<open>CO\<close>, \<open>CCO\<close>; \<open>oxygen_env\<close> is
  \<^verbatim>\<open>Molecule(atom_types=['O'])\<close> after \<open>initialize()\<close>.
\<close>

definition fresh_env :: Molecule where
  "fresh_env = Molecule_init chain_chem [''C'', ''O''] None True True True None 3 None True"

definition started_env :: Molecule where
  "started_env = snd (initialize chain_chem fresh_env)"

definition finished_env :: Molecule where
  "finished_env =
     (case steps chain_chem started_env [''C'', ''CO'', ''CCO''] of
        None \<Rightarrow> started_env
      | Some self \<Rightarrow> self)"

definition oxygen_env :: Molecule where
  "oxygen_env =
     snd (initialize chain_chem
            (Molecule_init chain_chem [''O''] None True True True None 10 None False))"

definition methane_env :: Molecule where
  "methane_env = snd (step chain_chem started_env ''C'')"

text \<open>
  Concrete molecules of \<open>chain_chem\<close>: two methanes (\<open>C.C\<close>), ethanal
  (\<open>CC=O\<close>) with its single bond, butane (\<open>CCCC\<close>) with its middle bond, and
  1-chloropropane (\<open>CCCCl\<close>) with the bond to its chlorine.
\<close>

definition two_methanes :: chain_mol where
  "two_methanes = \<lparr>chain_atoms = [''C'', ''C''], chain_bonds = []\<rparr>"







section \<open>Frame lemmas\<close>

lemma get_valid_actions_frame:
  "\<exists>A. snd (Molecule_get_valid_actions chem self st f) = self\<lparr>priv_valid_actions := A\<rparr>"
proof -
  have self: "self = self\<lparr>priv_valid_actions := priv_valid_actions self\<rparr>" by simp
  show ?thesis
    unfolding Molecule_get_valid_actions_def rebuild_valid_actions_def
    by (auto split: option.splits sum.splits intro: exI [of _ "priv_valid_actions self"])
qed

lemma episode_over_cache:
  "episode_over (self\<lparr>priv_valid_actions := A\<rparr>) = episode_over self"
  by (simp add: episode_over_def goal_reached_def split: option.splits)

lemma step_when_over:
  "episode_over self \<Longrightarrow>
     step chem self action = (Inl (ValueError ''This episode is terminated.''), self)"
  by (simp add: step_def)

lemma step_returns:
  assumes "step chem self a = (Inr r, self')"
  shows "\<exists>A. self' = self\<lparr> priv_state := Some a,
             priv_path := (if record_path self then priv_path self @ [Some a]
                           else priv_path self),
             priv_valid_actions := A,
             priv_counter := priv_counter self + 1 \<rparr>"
  using assms
  by (auto simp add: step_def Molecule_get_valid_actions_def rebuild_valid_actions_def
        Let_def split: if_splits sum.splits)

lemma initialize_returns:
  assumes "initialize chem self = (Inr u, self')"
  shows "\<exists>A. self' = self\<lparr> priv_state := init_mol self,
             priv_path := (if record_path self then [init_mol self] else priv_path self),
             priv_valid_actions := A,
             priv_counter := 0 \<rparr>"
  using assms
  by (auto simp add: initialize_def Molecule_get_valid_actions_def rebuild_valid_actions_def
        Let_def split: if_splits sum.splits)

lemma rebuild_empty_state:
  "st = None \<or> st = Some [] \<Longrightarrow>
   rebuild_valid_actions chem self st =
     (Inr (set (atom_types self)), self\<lparr>priv_valid_actions := set (atom_types self)\<rparr>)"
  by (auto simp add: rebuild_valid_actions_def get_valid_actions_def)

section \<open>The uninitialized environment\<close>

text \<open>
  C9. The constructor sets the step counter to \<open>max_steps\<close>, not to 0. Before
  \<open>initialize()\<close> has been called, \<open>num_steps_taken\<close> is therefore \<open>max_steps\<close>, and
  \<open>step\<close> raises the error of a terminated episode for every action and every
  configuration, leaving the environment as it was: at the step interface a fresh
  environment behaves as a terminated one.
\<close>

theorem fresh_environment_is_terminated:
  "num_steps_taken (Molecule_init chem ats im ar anm abr sizes ms tf rp) = ms \<and>
   step chem (Molecule_init chem ats im ar anm abr sizes ms tf rp) action =
     (Inl (ValueError ''This episode is terminated.''),
      Molecule_init chem ats im ar anm abr sizes ms tf rp)"
  by (simp add: num_steps_taken_def step_def episode_over_def Molecule_init_def)

theorem fresh_environment_is_terminated_witness:
  "num_steps_taken fresh_env = 3 \<and>
   fst (step chain_chem fresh_env ''C'') = Inl (ValueError ''This episode is terminated.'')"
  using fresh_environment_is_terminated
          [of chain_chem "[''C'', ''O'']" None True True True None 3 None True "''C''"]
  by (simp add: fresh_env_def)

section \<open>Rejected actions\<close>

text \<open>
  C4. In an episode that is not over (the counter is below \<open>max_steps\<close> and the goal
  predicate does not hold), \<open>step\<close> called with an action that is not in the cached
  action space raises \<open>ValueError('Invalid action.')\<close>, and the environment after the
  call is the environment before it: state, step counter, cached action space and path
  are unchanged.
\<close>

theorem step_invalid_action:
  assumes "\<not> episode_over self" and "action \<notin> priv_valid_actions self"
  shows "step chem self action = (Inl (ValueError ''Invalid action.''), self) \<and>
         Molecule_state (snd (step chem self action)) = Molecule_state self \<and>
         num_steps_taken (snd (step chem self action)) = num_steps_taken self \<and>
         priv_valid_actions (snd (step chem self action)) = priv_valid_actions self \<and>
         get_path (snd (step chem self action)) = get_path self"
  using assms by (simp add: step_def)

theorem step_invalid_action_witness:
  "\<not> episode_over started_env \<and> ''N'' \<notin> priv_valid_actions started_env \<and>
   priv_valid_actions started_env = {''C'', ''O''} \<and>
   step chain_chem started_env ''N'' = (Inl (ValueError ''Invalid action.''), started_env)"
proof -
  have active: "\<not> episode_over started_env" by code_simp
  have cache: "priv_valid_actions started_env = {''C'', ''O''}" by code_simp
  have absent: "''N'' \<notin> priv_valid_actions started_env" by code_simp
  from step_invalid_action [OF active absent, of chain_chem] active cache absent
  show ?thesis by simp
qed

section \<open>Termination\<close>

text \<open>
  C5. Once the step counter has reached \<open>max_steps\<close> or the goal predicate holds on
  the current state, \<open>step\<close> raises \<open>ValueError('This episode is terminated.')\<close>
  whatever the action (the check comes before the action is looked at, and the
  environment is left as it was), and it goes on doing so after any sequence of further
  \<open>step\<close> and \<open>get_valid_actions\<close> calls: only \<open>initialize()\<close> can end this.
\<close>

lemma after_call_over:
  "episode_over self \<Longrightarrow> episode_over (after_call chem self c)"
proof (cases c)
  case (StepCall a)
  assume "episode_over self"
  then show ?thesis using StepCall by (simp add: step_when_over)
next
  case (GetValidActionsCall st f)
  assume over: "episode_over self"
  obtain A where
    "snd (Molecule_get_valid_actions chem self st f) = self\<lparr>priv_valid_actions := A\<rparr>"
    using get_valid_actions_frame by blast
  then show ?thesis using GetValidActionsCall over by (simp add: episode_over_cache)
qed

lemma after_calls_over:
  "episode_over self \<Longrightarrow> episode_over (after_calls chem self cs)"
  unfolding after_calls_def
  by (induction cs arbitrary: self) (simp_all add: after_call_over)

theorem termination_is_sticky:
  assumes "priv_counter self \<ge> max_steps self \<or> goal_reached self"
  shows "step chem (after_calls chem self cs) action =
           (Inl (ValueError ''This episode is terminated.''), after_calls chem self cs)"
proof -
  have "episode_over self" using assms by (simp add: episode_over_def)
  then have "episode_over (after_calls chem self cs)" by (rule after_calls_over)
  then show ?thesis by (rule step_when_over)
qed

theorem termination_is_sticky_witness:
  "priv_counter finished_env = 3 \<and> max_steps finished_env = 3 \<and>
   Molecule_state finished_env = Some ''CCO'' \<and>
   fst (step chain_chem
          (after_calls chain_chem finished_env
             [StepCall ''CCO'', GetValidActionsCall (Some (Smiles ''C'')) True, StepCall ''CC''])
          ''CC'') = Inl (ValueError ''This episode is terminated.'')"
proof -
  have c: "priv_counter finished_env = 3" by code_simp
  have m: "max_steps finished_env = 3" by code_simp
  have s: "Molecule_state finished_env = Some ''CCO''" by code_simp
  have "priv_counter finished_env \<ge> max_steps finished_env \<or> goal_reached finished_env"
    using c m by simp
  from termination_is_sticky [OF this, of chain_chem] c m s
  show ?thesis by simp
qed

section \<open>The empty state\<close>

text \<open>
  C7. For the state \<open>None\<close> and for the empty string \<open>get_valid_actions\<close> returns the
  atom types, whatever the backend is: nothing is parsed. So \<open>initialize()\<close> on an
  environment whose \<open>init_mol\<close> is \<open>None\<close> returns, \<open>num_steps_taken\<close> is 0 after
  it, the cached action space is the atom types, and that is what
  \<open>get_valid_actions()\<close> then returns.
\<close>

theorem empty_state_actions:
  "get_valid_actions chem None ats ar anm sizes abr = Inr (set ats) \<and>
   get_valid_actions chem (Some []) ats ar anm sizes abr = Inr (set ats) \<and>
   (init_mol self = None \<longrightarrow>
      fst (initialize chem self) = Inr () \<and>
      num_steps_taken (snd (initialize chem self)) = 0 \<and>
      priv_valid_actions (snd (initialize chem self)) = set (atom_types self) \<and>
      fst (Molecule_get_valid_actions chem (snd (initialize chem self)) None False)
        = Inr (set (atom_types self)))"
  by (auto simp add: get_valid_actions_def initialize_def num_steps_taken_def
        Molecule_get_valid_actions_def rebuild_empty_state Let_def)

theorem empty_state_actions_witness:
  "init_mol fresh_env = None \<and> max_steps fresh_env = 3 \<and>
   fst (initialize chain_chem fresh_env) = Inr () \<and>
   num_steps_taken (snd (initialize chain_chem fresh_env)) = 0 \<and>
   priv_valid_actions (snd (initialize chain_chem fresh_env)) = {''C'', ''O''}"
proof -
  have none: "init_mol fresh_env = None" by code_simp
  have ms: "max_steps fresh_env = 3" by code_simp
  have ats: "set (atom_types fresh_env) = {''C'', ''O''}" by code_simp
  from empty_state_actions [of chain_chem "[]" True True None True fresh_env] none ms ats
  show ?thesis by simp
qed

section \<open>A successful step\<close>

text \<open>
  The step of an episode that is not over, with an action of the cached action space,
  when the enumeration for the new state returns \<open>acts\<close>: \<open>step\<close> returns the triple
  of the new state, the reward 0.0 and the termination flag, which is true iff the
  incremented counter has reached \<open>max_steps\<close> or the goal predicate holds on the new
  state; the environment after the call has the action as its state, the action appended
  to the path when recording is enabled, \<open>acts\<close> as its cached action space and the
  counter incremented by one.
\<close>

theorem step_commits_action:
  assumes "\<not> episode_over self" and "action \<in> priv_valid_actions self"
    and "get_valid_actions chem (Some action) (atom_types self) (allow_removal self)
           (allow_no_modification self) (allowed_ring_sizes self)
           (allow_bonds_between_rings self) = Inr acts"
  shows "step chem self action =
      (Inr \<lparr> state = Some action, reward = 0,
             terminated = (priv_counter self + 1 \<ge> max_steps self \<or>
               (case priv_target_fn self of None \<Rightarrow> False | Some f \<Rightarrow> f (Some action))) \<rparr>,
       self\<lparr> priv_state := Some action,
             priv_path := (if record_path self then priv_path self @ [Some action]
                           else priv_path self),
             priv_valid_actions := acts,
             priv_counter := priv_counter self + 1 \<rparr>)"
  using assms
  by (simp add: step_def Molecule_get_valid_actions_def rebuild_valid_actions_def
        reward_hook_def episode_over_def goal_reached_def Let_def split: option.splits)

theorem step_commits_action_witness:
  "\<not> episode_over started_env \<and> ''C'' \<in> priv_valid_actions started_env \<and>
   fst (step chain_chem started_env ''C'') =
     Inr \<lparr>state = Some ''C'', reward = 0, terminated = False\<rparr> \<and>
   priv_valid_actions (snd (step chain_chem started_env ''C'')) =
     {''C'', ''CC'', ''CO'', ''C=C'', ''C=O'', ''C#C''} \<and>
   priv_counter (snd (step chain_chem started_env ''C'')) = 1 \<and>
   priv_path (snd (step chain_chem started_env ''C'')) = [None, Some ''C'']"
proof -
  have active: "\<not> episode_over started_env" by code_simp
  have legal: "''C'' \<in> priv_valid_actions started_env" by code_simp
  have enum: "get_valid_actions chain_chem (Some ''C'') (atom_types started_env)
      (allow_removal started_env) (allow_no_modification started_env)
      (allowed_ring_sizes started_env) (allow_bonds_between_rings started_env) =
      Inr {''C'', ''CC'', ''CO'', ''C=C'', ''C=O'', ''C#C''}" by code_simp
  have c: "priv_counter started_env = 0" by code_simp
  have m: "max_steps started_env = 3" by code_simp
  have t: "priv_target_fn started_env = None" by code_simp
  have r: "record_path started_env" by code_simp
  have p: "priv_path started_env = [None]" by code_simp
  from step_commits_action [OF active legal enum] active legal c m t r p
  show ?thesis by simp
qed

section \<open>The recorded path\<close>

text \<open>
  C8. With \<open>record_path\<close> set, after an \<open>initialize()\<close> that returns and \<open>k\<close>
  \<open>step\<close> calls that all return, \<open>get_path()\<close> has \<open>k + 1\<close> elements, its first is
  the initial state and its last is the current state; and one more step that returns
  keeps all three (the path is then one longer).
\<close>

lemma step_path_recorded:
  assumes "path_recorded self0 self k" and "step chem self a = (Inr r, self')"
  shows "path_recorded self0 self' (Suc k)"
proof -
  obtain A where "self' = self\<lparr> priv_state := Some a,
             priv_path := (if record_path self then priv_path self @ [Some a]
                           else priv_path self),
             priv_valid_actions := A,
             priv_counter := priv_counter self + 1 \<rparr>"
    using step_returns [OF assms(2)] by blast
  then show ?thesis
    using assms(1)
    by (cases "priv_path self")
       (auto simp add: path_recorded_def get_path_def Molecule_state_def num_steps_taken_def)
qed

lemma steps_path_recorded:
  "path_recorded self0 self k \<Longrightarrow> steps chem self as = Some self' \<Longrightarrow>
     path_recorded self0 self' (k + length as)"
proof (induction as arbitrary: self k)
  case Nil
  then show ?case by simp
next
  case (Cons a as)
  from Cons.prems(2) obtain r self1 where
    st: "step chem self a = (Inr r, self1)" and rest: "steps chem self1 as = Some self'"
    by (auto split: prod.splits sum.splits)
  have "path_recorded self0 self1 (Suc k)"
    using step_path_recorded [OF Cons.prems(1) st] .
  from Cons.IH [OF this rest] show ?case by simp
qed

theorem path_length_after_steps:
  assumes "record_path self"
    and "initialize chem self = (Inr (), self0)"
    and "steps chem self0 as = Some self'"
  shows "length (get_path self') = length as + 1 \<and>
         hd (get_path self') = init_mol self \<and>
         last (get_path self') = Molecule_state self' \<and>
         (\<forall>a r self''. step chem self' a = (Inr r, self'') \<longrightarrow>
            length (get_path self'') = length as + 2 \<and>
            hd (get_path self'') = init_mol self \<and>
            last (get_path self'') = Molecule_state self'')"
proof -
  obtain A where "self0 = self\<lparr> priv_state := init_mol self,
             priv_path := (if record_path self then [init_mol self] else priv_path self),
             priv_valid_actions := A,
             priv_counter := 0 \<rparr>"
    using initialize_returns [OF assms(2)] by blast
  then have "path_recorded self self0 0"
    using assms(1)
    by (simp add: path_recorded_def get_path_def Molecule_state_def num_steps_taken_def)
  from steps_path_recorded [OF this assms(3)]
  have inv: "path_recorded self self' (length as)" by simp
  have "path_recorded self self'' (Suc (length as))"
    if "step chem self' a = (Inr r, self'')" for a r self''
    using step_path_recorded [OF inv that] .
  then show ?thesis
    using inv unfolding path_recorded_def by auto
qed

theorem path_length_after_steps_witness:
  "record_path fresh_env \<and>
   fst (initialize chain_chem fresh_env) = Inr () \<and>
   steps chain_chem started_env [''C'', ''CO'', ''CCO''] = Some finished_env \<and>
   get_path finished_env = [None, Some ''C'', Some ''CO'', Some ''CCO''] \<and>
   length (get_path finished_env) = 4 \<and>
   Molecule_state finished_env = Some ''CCO''"
proof -
  have rec: "record_path fresh_env" by code_simp
  have ok: "fst (initialize chain_chem fresh_env) = Inr ()" by code_simp
  then have init: "initialize chain_chem fresh_env = (Inr (), started_env)"
    by (simp add: started_env_def prod_eq_iff)
  have some: "steps chain_chem started_env [''C'', ''CO'', ''CCO''] \<noteq> None" by code_simp
  then have run: "steps chain_chem started_env [''C'', ''CO'', ''CCO''] = Some finished_env"
    by (auto simp add: finished_env_def)
  have path: "get_path finished_env = [None, Some ''C'', Some ''CO'', Some ''CCO'']"
    by code_simp
  from path_length_after_steps [OF rec init run] rec ok run path
  show ?thesis by simp
qed

section \<open>The cache and an explicit state\<close>

text \<open>
  C10. \<open>get_valid_actions\<close> called with an explicit state \<open>s\<close> whose action space
  \<open>A\<close> can be enumerated, with or without \<open>force_rebuild\<close>, returns \<open>A\<close> and stores
  it in the cache; called with no state and an empty cache it does the same for the
  current state, also without \<open>force_rebuild\<close>. Neither changes the current state. A
  \<open>step\<close> in the environment whose cache is \<open>A\<close> rejects the actions outside \<open>A\<close>
  and takes an action of \<open>A\<close> as the new state, whatever the current state is.
\<close>

theorem explicit_state_overwrites_cache:
  "(get_valid_actions chem (Some (as_smiles chem s)) (atom_types self)
      (allow_removal self) (allow_no_modification self) (allowed_ring_sizes self)
      (allow_bonds_between_rings self) = Inr A \<longrightarrow>
    Molecule_get_valid_actions chem self (Some s) force =
      (Inr A, self\<lparr>priv_valid_actions := A\<rparr>)) \<and>
   (priv_valid_actions self = {} \<and>
    get_valid_actions chem (priv_state self) (atom_types self)
      (allow_removal self) (allow_no_modification self) (allowed_ring_sizes self)
      (allow_bonds_between_rings self) = Inr A \<longrightarrow>
    Molecule_get_valid_actions chem self None force =
      (Inr A, self\<lparr>priv_valid_actions := A\<rparr>)) \<and>
   Molecule_state (self\<lparr>priv_valid_actions := A\<rparr>) = Molecule_state self \<and>
   (\<not> episode_over self \<longrightarrow>
      (\<forall>a. a \<notin> A \<longrightarrow>
           step chem (self\<lparr>priv_valid_actions := A\<rparr>) a =
             (Inl (ValueError ''Invalid action.''), self\<lparr>priv_valid_actions := A\<rparr>)) \<and>
      (\<forall>a. a \<in> A \<longrightarrow>
           Molecule_state (snd (step chem (self\<lparr>priv_valid_actions := A\<rparr>) a)) = Some a))"
proof -
  have frame:
    "Molecule_state (snd (Molecule_get_valid_actions chem s' None True)) = Molecule_state s'"
    for s'
    using get_valid_actions_frame [of chem s' None True]
    by (auto simp add: Molecule_state_def)
  show ?thesis
    using frame
    by (auto simp add: Molecule_get_valid_actions_def rebuild_valid_actions_def
          Molecule_state_def step_def episode_over_def goal_reached_def
          Let_def split: option.splits prod.splits sum.splits)
qed

theorem explicit_state_overwrites_cache_witness:
  "Molecule_state methane_env = Some ''C'' \<and>
   ''CC'' \<in> priv_valid_actions methane_env \<and> ''OO'' \<notin> priv_valid_actions methane_env \<and>
   Molecule_state
     (snd (Molecule_get_valid_actions chain_chem methane_env (Some (Smiles ''O'')) False))
     = Some ''C'' \<and>
   fst (step chain_chem
          (snd (Molecule_get_valid_actions chain_chem methane_env (Some (Smiles ''O'')) False))
          ''CC'') = Inl (ValueError ''Invalid action.'') \<and>
   Molecule_state
     (snd (step chain_chem
             (snd (Molecule_get_valid_actions chain_chem methane_env
                     (Some (Smiles ''O'')) False))
             ''OO'')) = Some ''OO''"
proof -
  let ?A = "{''CO'', ''OO'', ''C=O'', ''O=O'', ''O''}"
  let ?env = "methane_env\<lparr>priv_valid_actions := ?A\<rparr>"
  have cur: "Molecule_state methane_env = Some ''C''" by code_simp
  have old: "''CC'' \<in> priv_valid_actions methane_env" by code_simp
  have new: "''OO'' \<notin> priv_valid_actions methane_env" by code_simp
  have active: "\<not> episode_over methane_env" by code_simp
  have enum: "get_valid_actions chain_chem (Some (as_smiles chain_chem (Smiles ''O'')))
      (atom_types methane_env) (allow_removal methane_env) (allow_no_modification methane_env)
      (allowed_ring_sizes methane_env) (allow_bonds_between_rings methane_env) = Inr ?A"
    by code_simp
  have out: "''CC'' \<notin> ?A" by simp
  have inside: "''OO'' \<in> ?A" by simp
  note whole = explicit_state_overwrites_cache [of chain_chem "Smiles ''O''" methane_env ?A False]
  have call: "Molecule_get_valid_actions chain_chem methane_env (Some (Smiles ''O'')) False =
        (Inr ?A, ?env)"
    using whole enum by simp
  have same: "Molecule_state ?env = Molecule_state methane_env"
    using whole by simp
  have reject: "step chain_chem ?env ''CC'' = (Inl (ValueError ''Invalid action.''), ?env)"
    using whole active out by simp
  have accept: "Molecule_state (snd (step chain_chem ?env ''OO'')) = Some ''OO''"
    using whole active inside by simp
  show ?thesis
    unfolding call snd_conv reject fst_conv accept same
    using cur old new by (intro conjI) simp_all
qed

section \<open>A state that does not parse\<close>

text \<open>
  C2. The claim: for a non-empty state that the backend cannot parse,
  \<open>get_valid_actions\<close> raises a \<open>ValueError\<close> that carries the state. The code: the
  message is built with \<^verbatim>\<open>&\<close> where \<^verbatim>\<open>%\<close> was meant, so building it raises
  \<open>TypeError\<close> and the \<open>ValueError\<close> is never raised. The error does reach the
  caller, of the function and of the environment's method alike, which leaves the
  environment unchanged.
\<close>

theorem unparsable_state_raises_type_error:
  assumes "s \<noteq> []" and "MolFromSmiles chem s = None"
  shows "get_valid_actions chem (Some s) ats ar anm sizes abr =
           Inl (TypeError ''unsupported operand type(s) for &: str and str'') \<and>
         (\<forall>msg. get_valid_actions chem (Some s) ats ar anm sizes abr \<noteq> Inl (ValueError msg)) \<and>
         Molecule_get_valid_actions chem self (Some (Smiles s)) force =
           (Inl (TypeError ''unsupported operand type(s) for &: str and str''), self)"
  using assms
  by (simp add: get_valid_actions_def Molecule_get_valid_actions_def
        rebuild_valid_actions_def as_smiles_def)

theorem unparsable_state_raises_type_error_witness:
  "MolFromSmiles chain_chem ''C('' = None \<and>
   get_valid_actions chain_chem (Some ''C('') [''C'', ''O''] True True None True =
     Inl (TypeError ''unsupported operand type(s) for &: str and str'')"
proof -
  have ne: "''C('' \<noteq> []" by simp
  have bad: "MolFromSmiles chain_chem ''C('' = None" by code_simp
  from unparsable_state_raises_type_error [OF ne bad] bad
  show ?thesis by simp
qed

section \<open>A new bond\<close>

lemma bond_order_at_values:
  "bond_order_at 1 = Inr SINGLE" "bond_order_at 2 = Inr DOUBLE" "bond_order_at 3 = Inr TRIPLE"
  "4 \<le> v \<Longrightarrow> bond_order_at v = Inl (IndexError ''list index out of range'')"
  by (simp_all add: bond_order_at_def py_index_def bond_orders_def)

text \<open>
  C3. For a pair of atoms with no bond between them, at a valence level \<open>v \<ge> 1\<close>:
  the pair is skipped when bonds between rings are not allowed and both atoms are in a
  ring; it is skipped when ring sizes are given and the number of atoms on the shortest
  path between the two is not among them; otherwise the candidate is the kekulized state
  with a new bond of order \<open>v\<close> when \<open>v\<close> is 1, 2 or 3, kept when it sanitizes. At a
  level of 4 or more, which the free-valence map has as soon as an atom type has a
  valence above 4, \<open>bond_orders[valence]\<close> is out of range and the enumeration ends
  with \<open>IndexError\<close>; the branch for an existing bond checks the index against
  \<open>len(bond_orders)\<close>, this one does not.
\<close>

theorem new_bond_order:
  assumes "GetBondBetweenAtoms chem st a1 a2 = None" and "1 \<le> v"
  shows "bond_addition_pair chem st sizes abr v (a1, a2) =
     (if \<not> abr \<and> IsInRing chem st a1 \<and> IsInRing chem st a2 then Inr {}
      else if (\<exists>S. sizes = Some S \<and> length (GetShortestPath chem st a1 a2) \<notin> S) then Inr {}
      else if v = 1 then
        Inr (sanitized_smiles chem (AddBond chem (Kekulize chem st) a1 a2 SINGLE))
      else if v = 2 then
        Inr (sanitized_smiles chem (AddBond chem (Kekulize chem st) a1 a2 DOUBLE))
      else if v = 3 then
        Inr (sanitized_smiles chem (AddBond chem (Kekulize chem st) a1 a2 TRIPLE))
      else Inl (IndexError ''list index out of range''))"
proof -
  consider "v = 1" | "v = 2" | "v = 3" | "4 \<le> v" using assms(2) by linarith
  then show ?thesis
    using assms(1)
    by cases (auto simp add: bond_addition_pair_def bond_order_at_values Let_def
                split: option.splits)
qed

theorem new_bond_order_witness:
  "GetBondBetweenAtoms chain_chem two_methanes 0 1 = None \<and>
   MolFromSmiles chain_chem ''C.C'' = Some two_methanes \<and>
   bond_addition_pair chain_chem two_methanes None True 4 (0, 1) =
     Inl (IndexError ''list index out of range'') \<and>
   bond_addition_pair chain_chem two_methanes None True 1 (0, 1) = Inr {''CC''} \<and>
   get_valid_actions chain_chem (Some ''C.C'') [''C'', ''S''] True True None True =
     Inl (IndexError ''list index out of range'')"
proof -
  have unbonded: "GetBondBetweenAtoms chain_chem two_methanes 0 1 = None" by code_simp
  have parsed: "MolFromSmiles chain_chem ''C.C'' = Some two_methanes" by code_simp
  have single: "sanitized_smiles chain_chem
      (AddBond chain_chem (Kekulize chain_chem two_methanes) 0 1 SINGLE) = {''CC''}"
    by code_simp
  have whole: "get_valid_actions chain_chem (Some ''C.C'') [''C'', ''S''] True True None True =
     Inl (IndexError ''list index out of range'')" by code_simp
  from new_bond_order [OF unbonded, of 4 None True]
       new_bond_order [OF unbonded, of 1 None True] unbonded parsed single whole
  show ?thesis by simp
qed

section \<open>Removing a bond\<close>

subsection \<open>Loops that collect\<close>



subsection \<open>The fragments, sorted by length\<close>












subsection \<open>The removal never raises\<close>






subsection \<open>The fragment that is kept\<close>





section \<open>Further properties of the enumeration\<close>

subsection \<open>Atom types of small valence\<close>

lemma map_of_graph:
  "map_of (map (\<lambda>i. (i, g i)) xs) k = (if k \<in> set xs then Some (g k) else None)"
  by (induction xs) auto

lemma free_valence_map_lookup:
  "map_of (free_valence_map chem mol m) i =
     (if 1 \<le> i \<and> i \<le> m - 1
      then Some (filter (\<lambda>a. GetNumImplicitHs chem mol a \<ge> i) (GetAtoms chem mol))
      else None)"
  unfolding free_valence_map_def by (simp add: map_of_graph)

lemma atom_addition_key_error:
  assumes "m \<le> 3"
  shows "atom_addition chem mol ats vs (free_valence_map chem mol m) = Inl (KeyError (max 1 m))"
proof -
  consider "m \<le> 1" | "m = 2" | "m = 3" using assms by linarith
  then show ?thesis
    by cases (simp_all add: atom_addition_def free_valence_map_lookup)
qed

text \<open>
  The free-valence map has the keys 1 to \<open>m - 1\<close>, where \<open>m\<close> is the largest valence
  of the atom types, and \<open>_atom_addition\<close> reads the keys 1, 2 and 3. When \<open>m\<close> is at
  most 3, the enumeration of every non-empty state that parses raises \<open>KeyError\<close>, at
  the first key that is missing.
\<close>

theorem low_valence_raises_key_error:
  assumes "s \<noteq> []" and "MolFromSmiles chem s = Some mol"
    and "py_max (map (\<lambda>t. hd (atom_valences chem [t])) ats) = Inr m" and "m \<le> 3"
  shows "get_valid_actions chem (Some s) ats ar anm sizes abr = Inl (KeyError (max 1 m))"
  using assms
  by (simp add: get_valid_actions_def enumerate_edits_def atom_addition_key_error comp_def)

theorem low_valence_raises_key_error_witness:
  "MolFromSmiles chain_chem ''N'' \<noteq> None \<and>
   py_max (map (\<lambda>t. hd (atom_valences chain_chem [t])) [''O'', ''N'']) = Inr 3 \<and>
   get_valid_actions chain_chem (Some ''N'') [''O'', ''N''] True True None True = Inl (KeyError 3)"
proof -
  have ne: "''N'' \<noteq> []" by simp
  have parsed: "MolFromSmiles chain_chem ''N'' = Some \<lparr>chain_atoms = [''N''], chain_bonds = []\<rparr>"
    by code_simp
  have top: "py_max (map (\<lambda>t. hd (atom_valences chain_chem [t])) [''O'', ''N'']) = Inr 3"
    by code_simp
  have le: "(3::int) \<le> 3" by simp
  from low_valence_raises_key_error [OF ne parsed top le, of True True None True] parsed top
  show ?thesis by simp
qed

subsection \<open>A step whose enumeration raises\<close>

text \<open>
  When the enumeration for the new state raises, \<open>step\<close> raises the same error; the
  environment after the call has the action as its state and, when recording, on its
  path; the counter and the cached action space are those before the call.
\<close>

theorem step_enumeration_error:
  assumes "\<not> episode_over self" and "action \<in> priv_valid_actions self"
    and "get_valid_actions chem (Some action) (atom_types self) (allow_removal self)
           (allow_no_modification self) (allowed_ring_sizes self)
           (allow_bonds_between_rings self) = Inl e"
  shows "step chem self action =
      (Inl e,
       self\<lparr> priv_state := Some action,
             priv_path := (if record_path self then priv_path self @ [Some action]
                           else priv_path self) \<rparr>)"
  using assms
  by (simp add: step_def Molecule_get_valid_actions_def rebuild_valid_actions_def Let_def)

theorem step_enumeration_error_witness:
  "\<not> episode_over oxygen_env \<and> ''O'' \<in> priv_valid_actions oxygen_env \<and>
   step chain_chem oxygen_env ''O'' =
     (Inl (KeyError 2), oxygen_env\<lparr>priv_state := Some ''O'', priv_path := priv_path oxygen_env\<rparr>)"
proof -
  have active: "\<not> episode_over oxygen_env" by code_simp
  have legal: "''O'' \<in> priv_valid_actions oxygen_env" by code_simp
  have rec: "\<not> record_path oxygen_env" by code_simp
  have enum: "get_valid_actions chain_chem (Some ''O'') (atom_types oxygen_env)
      (allow_removal oxygen_env) (allow_no_modification oxygen_env)
      (allowed_ring_sizes oxygen_env) (allow_bonds_between_rings oxygen_env) =
      Inl (KeyError 2)" by code_simp
  from step_enumeration_error [OF active legal enum] active legal rec
  show ?thesis by simp
qed

subsection \<open>A step that cannot succeed\<close>

text \<open>
  C6. The claim: in an episode that is not over, \<open>step\<close> with an action of the cached
  action space commits the action, rebuilds the action space, increments the counter and
  returns the result triple. The code: when the largest valence \<open>m\<close> of the atom types
  is at most 3, the enumeration of every non-empty state raises \<open>KeyError\<close>, so for
  every action of the cache that parses \<open>step\<close> raises \<open>KeyError\<close> after it has
  set the state and appended it to the path: no result is returned and the counter is
  not incremented.
\<close>

theorem step_raises_key_error:
  assumes "\<not> episode_over self" and "action \<in> priv_valid_actions self"
    and "action \<noteq> []" and "MolFromSmiles chem action = Some mol"
    and "py_max (map (\<lambda>t. hd (atom_valences chem [t])) (atom_types self)) = Inr m"
    and "m \<le> 3"
  shows "step chem self action =
      (Inl (KeyError (max 1 m)),
       self\<lparr> priv_state := Some action,
             priv_path := (if record_path self then priv_path self @ [Some action]
                           else priv_path self) \<rparr>) \<and>
     num_steps_taken (snd (step chem self action)) = num_steps_taken self"
proof -
  have "get_valid_actions chem (Some action) (atom_types self) (allow_removal self)
           (allow_no_modification self) (allowed_ring_sizes self)
           (allow_bonds_between_rings self) = Inl (KeyError (max 1 m))"
    using low_valence_raises_key_error [OF assms(3,4,5,6)] .
  from step_enumeration_error [OF assms(1,2) this]
  show ?thesis by (simp add: num_steps_taken_def)
qed

theorem step_raises_key_error_witness:
  "\<not> episode_over oxygen_env \<and> ''O'' \<in> priv_valid_actions oxygen_env \<and>
   MolFromSmiles chain_chem ''O'' = Some \<lparr>chain_atoms = [''O''], chain_bonds = []\<rparr> \<and>
   fst (step chain_chem oxygen_env ''O'') = Inl (KeyError 2) \<and>
   Molecule_state (snd (step chain_chem oxygen_env ''O'')) = Some ''O'' \<and>
   num_steps_taken (snd (step chain_chem oxygen_env ''O'')) = 0"
proof -
  have active: "\<not> episode_over oxygen_env" by code_simp
  have legal: "''O'' \<in> priv_valid_actions oxygen_env" by code_simp
  have ne: "''O'' \<noteq> []" by simp
  have parsed: "MolFromSmiles chain_chem ''O'' = Some \<lparr>chain_atoms = [''O''], chain_bonds = []\<rparr>"
    by code_simp
  have top: "py_max (map (\<lambda>t. hd (atom_valences chain_chem [t])) (atom_types oxygen_env)) = Inr 2"
    by code_simp
  have le: "(2::int) \<le> 3" by simp
  have zero: "num_steps_taken oxygen_env = 0" by code_simp
  from step_raises_key_error [OF active legal ne parsed top le] active legal parsed zero
  show ?thesis by (simp add: Molecule_state_def num_steps_taken_def)
qed

subsection \<open>The single-atom test\<close>

text \<open>
  The test for a single-atom fragment in \<open>_bond_removal\<close> is a test on the length of
  the serialization. The fragments \<open>CCC\<close> and \<open>C\<close> keep \<open>CCC\<close>; the fragments
  \<open>CCC\<close> and \<open>Cl\<close> keep nothing, the chlorine atom being written with two
  characters; two fragments of two atoms keep nothing, and a single fragment is kept.
\<close>

theorem fragment_test_is_on_length:
  "removal_fragments ''CCC.C'' = {''CCC''} \<and> removal_fragments ''CCC.Cl'' = {} \<and>
   removal_fragments ''CC.CC'' = {} \<and> removal_fragments ''CCO'' = {''CCO''}"
  by code_simp

end
